theory Spec2Isabelle
  imports Complex_Main "HOL-Library.Sublist"
begin

section \<open>Python strings\<close>

text \<open>
  A Python \<open>str\<close> is modelled as a \<open>string\<close>, one \<open>char\<close> per code point, which covers
  the code points below 256. \<open>isspace\<close> lists the code points in that range that
  \<open>str.strip()\<close> removes: the ASCII controls 9 to 13 and 28 to 31, the space, NEL (133)
  and the no-break space (160).
\<close>

definition isspace :: "char \<Rightarrow> bool" where
  "isspace c \<longleftrightarrow> of_char c \<in> {9, 10, 11, 12, 13, 28, 29, 30, 31, 32, 133, 160 :: nat}"

definition lstrip_chars :: "(char \<Rightarrow> bool) \<Rightarrow> string \<Rightarrow> string" where
  "lstrip_chars P s = dropWhile P s"

definition rstrip_chars :: "(char \<Rightarrow> bool) \<Rightarrow> string \<Rightarrow> string" where
  "rstrip_chars P s = rev (dropWhile P (rev s))"

text \<open>\<open>s.strip(chars)\<close>: drop the characters of the set from both ends.\<close>

definition strip_chars :: "(char \<Rightarrow> bool) \<Rightarrow> string \<Rightarrow> string" where
  "strip_chars P s = rstrip_chars P (lstrip_chars P s)"

text \<open>\<open>s.strip()\<close>: drop whitespace from both ends.\<close>

definition strip :: "string \<Rightarrow> string" where
  "strip s = strip_chars isspace s"

definition startswith :: "string \<Rightarrow> string \<Rightarrow> bool" where
  "startswith s p \<longleftrightarrow> prefix p s"

text \<open>
  \<open>s.replace(old, new)\<close>: every non-overlapping occurrence of \<open>old\<close>, found from the left.
  With an empty \<open>old\<close>, Python puts \<open>new\<close> before every character and at the end.
\<close>

function replace :: "string \<Rightarrow> string \<Rightarrow> string \<Rightarrow> string" where
  "replace old new [] = (if old = [] then new else [])"
| "replace old new (c # cs) =
     (if old = [] then new @ c # replace old new cs
      else if prefix old (c # cs) then new @ replace old new (drop (length old) (c # cs))
      else c # replace old new cs)"
  by pat_completeness auto
termination
  by (relation "measure (\<lambda>(old, new, s). length s)") auto

section \<open>Exceptions\<close>

datatype exc_class =
    NameError | AttributeError | JSONDecodeError | ValidationError
  | OutputParserException | OtherException

text \<open>A raised exception: its class and the text \<open>str(e)\<close> gives.\<close>

datatype py_exc = Raised (exc_class: exc_class) (exc_str: string)

section \<open>The text service (main.py)\<close>

subsection \<open>The model handle\<close>

text \<open>
  One call of \<open>llm.create_chat_completion\<close>: the messages as (role, content) pairs and the
  three sampling options the source passes. A message content is the f-string of the
  source, kept as its parts: literal text, an interpolated string, an interpolated list
  of strings.
\<close>

datatype fpart = Lit string | Interp string | InterpList "string list"

record llama_call =
  messages :: "(string \<times> fpart list) list"
  max_tokens :: nat
  temperature :: real
  top_p :: real

text \<open>
  The loaded model is opaque. It maps the calls made so far and the present call to an
  exception or to the text at \<open>response["choices"][0]["message"]["content"]\<close>; the
  dependence on the earlier calls stands for sampling, which may answer the same call
  differently each time.
\<close>

type_synonym llama = "llama_call list \<Rightarrow> llama_call \<Rightarrow> py_exc + string"

text \<open>
  The process state: the global \<open>llm\<close> (\<open>None\<close> when loading failed at startup) and the
  log of the calls the model has received.
\<close>

record app_state =
  llm :: "llama option"
  invocations :: "llama_call list"

definition create_chat_completion ::
  "app_state \<Rightarrow> llama_call \<Rightarrow> (py_exc + string) \<times> app_state" where
  "create_chat_completion st c =
     (case llm st of
        None \<Rightarrow> (Inl (Raised AttributeError
                    ''NoneType object has no attribute create_chat_completion''), st)
      | Some m \<Rightarrow> (m (invocations st) c, st\<lparr>invocations := invocations st @ [c]\<rparr>))"

subsection \<open>Requests and responses\<close>

record AutocompleteRequest =
  sentence :: string
  suggestions :: "string list"

record AutocompleteResponse =
  completion :: string
  full_text :: string

datatype HTTPException = HTTPException (status_code: nat) (detail: string)

record health_report =
  status :: string
  model_loaded :: bool
  model_path :: string

definition MODEL_PATH :: string where
  "MODEL_PATH = ''./llama-3.2-3b-instruct-q4_k_m.gguf''"

subsection \<open>autocomplete_lightart and refine_lightart\<close>

definition autocomplete_prompt :: "string \<Rightarrow> string list \<Rightarrow> fpart list" where
  "autocomplete_prompt base_sentence light_suggestions =
     [Lit ''\<newline>You are an AUTOCOMPLETE assistant.\<newline>\<newline>Use ONLY these light_suggestions:\<newline>'',
      InterpList light_suggestions,
      Lit ''\<newline>\<newline>RULES:\<newline>- Continue the sentence EXACTLY from where it ends.\<newline>'',
      Lit ''- Do NOT change the base sentence.\<newline>'',
      Lit ''- ONLY use provided light_suggestions to autocomplete.\<newline>'',
      Lit ''- ONLY natural color/tone language.\<newline>'',
      Lit ''- ONLY autocomplete using the light_suggestions.\<newline>\<newline>Complete: '',
      Interp base_sentence,
      Lit ''\<newline>'']"

definition autocomplete_lightart ::
  "app_state \<Rightarrow> string \<Rightarrow> string list \<Rightarrow> (py_exc + string) \<times> app_state" where
  "autocomplete_lightart st base_sentence light_suggestions =
     (case create_chat_completion st
             \<lparr>messages =
                [(''system'', [Lit ''Autocomplete using ONLY the allowed suggestions.'']),
                 (''user'', autocomplete_prompt base_sentence light_suggestions)],
              max_tokens = 20, temperature = 0.1, top_p = 0.9\<rparr> of
        (Inl e, st') \<Rightarrow> (Inl e, st')
      | (Inr content, st') \<Rightarrow> (Inr (strip content), st'))"

definition refine_prompt :: "string \<Rightarrow> string list \<Rightarrow> fpart list" where
  "refine_prompt base_sentence light_suggestions =
     [Lit ''\<newline>You are a REFINE assistant.\<newline>\<newline>Use ONLY these light_suggestions:\<newline>'',
      InterpList light_suggestions,
      Lit ''\<newline>\<newline>RULES:\<newline>- Continue the sentence EXACTLY from where it ends.\<newline>'',
      Lit ''- Do NOT change the base sentence.\<newline>'',
      Lit ''- ONLY use provided light_suggestions to refine.\<newline>'',
      Lit ''- ONLY natural color/tone language.\<newline>'',
      Lit ''- Generate approximately 12 words for the completion.\<newline>'',
      Lit ''- ONLY refine using the light_suggestions.\<newline>\<newline>Complete: '',
      Interp base_sentence,
      Lit ''\<newline>'']"

definition refine_lightart ::
  "app_state \<Rightarrow> string \<Rightarrow> string list \<Rightarrow> (py_exc + string) \<times> app_state" where
  "refine_lightart st base_sentence light_suggestions =
     (case create_chat_completion st
             \<lparr>messages =
                [(''system'',
                  [Lit ''Refine using ONLY the allowed suggestions. Generate approximately 12 words.'']),
                 (''user'', refine_prompt base_sentence light_suggestions)],
              max_tokens = 50, temperature = 0.2, top_p = 0.9\<rparr> of
        (Inl e, st') \<Rightarrow> (Inl e, st')
      | (Inr content, st') \<Rightarrow> (Inr (strip content), st'))"

subsection \<open>The endpoints\<close>

text \<open>
  Each handler takes the process state and the validated request body and returns the
  response, or the \<open>HTTPException\<close> it raises, with the state afterwards. The order of the
  checks is the source's: the model handle first, the sentence second, then the call
  inside \<open>try\<close>, whose \<open>except Exception\<close> turns any failure into status 500.
\<close>

definition health_check :: "app_state \<Rightarrow> (HTTPException + health_report) \<times> app_state" where
  "health_check st =
     (if llm st = None
      then (Inl (HTTPException 503 ''Model not loaded. Please check server logs.''), st)
      else (Inr \<lparr>status = ''healthy'', model_loaded = True, model_path = MODEL_PATH\<rparr>, st))"

definition autocomplete ::
  "app_state \<Rightarrow> AutocompleteRequest \<Rightarrow> (HTTPException + AutocompleteResponse) \<times> app_state" where
  "autocomplete st request =
     (if llm st = None
      then (Inl (HTTPException 503 ''Model not loaded. Please restart the server.''), st)
      else if strip (sentence request) = []
      then (Inl (HTTPException 400 ''Sentence cannot be empty''), st)
      else (case autocomplete_lightart st (sentence request) (suggestions request) of
              (Inr c, st') \<Rightarrow>
                (Inr \<lparr>completion = c, full_text = strip (sentence request @ '' '' @ c)\<rparr>, st')
            | (Inl e, st') \<Rightarrow>
                (Inl (HTTPException 500 (''Error generating autocomplete: '' @ exc_str e)), st')))"

definition refine ::
  "app_state \<Rightarrow> AutocompleteRequest \<Rightarrow> (HTTPException + AutocompleteResponse) \<times> app_state" where
  "refine st request =
     (if llm st = None
      then (Inl (HTTPException 503 ''Model not loaded. Please restart the server.''), st)
      else if strip (sentence request) = []
      then (Inl (HTTPException 400 ''Sentence cannot be empty''), st)
      else (case refine_lightart st (sentence request) (suggestions request) of
              (Inr c, st') \<Rightarrow>
                (Inr \<lparr>completion = c, full_text = strip (sentence request @ '' '' @ c)\<rparr>, st')
            | (Inl e, st') \<Rightarrow>
                (Inl (HTTPException 500 (''Error generating refinement: '' @ exc_str e)), st')))"

subsection \<open>Routing\<close>

record root_info =
  message :: string
  version :: string
  endpoints :: "(string \<times> string) list"

definition root :: root_info where
  "root =
     \<lparr>message = ''LightArt Autocomplete API'',
      version = ''1.0.0'',
      endpoints =
        [(''/autocomplete'', ''POST - Generate text autocompletion''),
         (''/health'', ''GET - Check API health status''),
         (''/docs'', ''GET - Interactive API documentation'')]\<rparr>"

text \<open>The four routes the decorators register, and what each returns.\<close>

datatype api_call =
    GetRoot
  | GetHealth
  | PostAutocomplete AutocompleteRequest
  | PostRefine AutocompleteRequest

datatype body =
    RootBody root_info
  | HealthBody health_report
  | CompletionBody AutocompleteResponse

fun dispatch :: "app_state \<Rightarrow> api_call \<Rightarrow> (HTTPException + body) \<times> app_state" where
  "dispatch st GetRoot = (Inr (RootBody root), st)"
| "dispatch st GetHealth = (case health_check st of (r, st') \<Rightarrow> (map_sum id HealthBody r, st'))"
| "dispatch st (PostAutocomplete request) =
     (case autocomplete st request of (r, st') \<Rightarrow> (map_sum id CompletionBody r, st'))"
| "dispatch st (PostRefine request) =
     (case refine st request of (r, st') \<Rightarrow> (map_sum id CompletionBody r, st'))"

text \<open>Requests served one after the other by the same process.\<close>

fun serve :: "app_state \<Rightarrow> api_call list \<Rightarrow> (HTTPException + body) list \<times> app_state" where
  "serve st [] = ([], st)"
| "serve st (c # cs) =
     (case dispatch st c of
        (r, st') \<Rightarrow> (case serve st' cs of (rs, st'') \<Rightarrow> (r # rs, st'')))"

text \<open>A model stub for concrete runs: it answers every call with the same text.\<close>

definition fixed_reply :: "string \<Rightarrow> llama" where
  "fixed_reply out history call = Inr out"

section \<open>The image pipeline (suggestionsPY.py)\<close>

subsection \<open>The schema\<close>

record MainSuggestions =
  movie_style_suggestion :: string
  mood_suggestion :: string
  color_focus_suggestion :: string
  other_main_suggestion :: string

record CombinedSuggestions =
  main_suggestions :: MainSuggestions
  normal_suggestions :: "string list"

text \<open>
  What a JSON decoder hands to validation: \<open>None\<close>, \<open>bool\<close>, \<open>int\<close>, \<open>float\<close>, \<open>str\<close>,
  \<open>list\<close> and \<open>dict\<close>. A \<open>dict\<close> is an association list read with \<open>map_of\<close>.
\<close>

datatype json =
    JNull | JBool bool | JInt int | JFloat real | JString string
  | JArray "json list" | JObject "(string \<times> json) list"

text \<open>
  Validation against the two classes, as the declarations fix it: every field is
  required (\<open>Field(...)\<close>), a \<open>SuggestionType\<close> field takes a \<open>str\<close> only, keys the class
  does not declare are ignored, and \<open>normal_suggestions\<close> is a list of no fewer and no
  more than 15 items (\<open>conlist(..., min_length=15, max_length=15)\<close>).
\<close>

definition invalid :: "string \<Rightarrow> py_exc + 'a" where
  "invalid msg = Inl (Raised ValidationError msg)"

fun validate_str :: "json \<Rightarrow> py_exc + string" where
  "validate_str (JString s) = Inr s"
| "validate_str _ = invalid ''Input should be a valid string''"

definition required_str :: "(string \<times> json) list \<Rightarrow> string \<Rightarrow> py_exc + string" where
  "required_str kv k =
     (case map_of kv k of None \<Rightarrow> invalid ''Field required'' | Some v \<Rightarrow> validate_str v)"

fun validate_str_list :: "json list \<Rightarrow> py_exc + string list" where
  "validate_str_list [] = Inr []"
| "validate_str_list (j # js) =
     (case validate_str j of
        Inl e \<Rightarrow> Inl e
      | Inr s \<Rightarrow> (case validate_str_list js of Inl e \<Rightarrow> Inl e | Inr ss \<Rightarrow> Inr (s # ss)))"

definition validate_MainSuggestions :: "json \<Rightarrow> py_exc + MainSuggestions" where
  "validate_MainSuggestions j =
     (case j of
        JObject kv \<Rightarrow>
          (case required_str kv ''movie_style_suggestion'' of Inl e \<Rightarrow> Inl e | Inr a \<Rightarrow>
          (case required_str kv ''mood_suggestion'' of Inl e \<Rightarrow> Inl e | Inr b \<Rightarrow>
          (case required_str kv ''color_focus_suggestion'' of Inl e \<Rightarrow> Inl e | Inr c \<Rightarrow>
          (case required_str kv ''other_main_suggestion'' of Inl e \<Rightarrow> Inl e | Inr d \<Rightarrow>
             Inr \<lparr>movie_style_suggestion = a, mood_suggestion = b,
                  color_focus_suggestion = c, other_main_suggestion = d\<rparr>))))
      | _ \<Rightarrow> invalid ''Input should be a valid dictionary or instance of MainSuggestions'')"

definition validate_normal_suggestions :: "json \<Rightarrow> py_exc + string list" where
  "validate_normal_suggestions j =
     (case j of
        JArray xs \<Rightarrow>
          (if length xs < 15 then invalid ''List should have at least 15 items''
           else if 15 < length xs then invalid ''List should have at most 15 items''
           else validate_str_list xs)
      | _ \<Rightarrow> invalid ''Input should be a valid list'')"

definition model_validate :: "json \<Rightarrow> py_exc + CombinedSuggestions" where
  "model_validate j =
     (case j of
        JObject kv \<Rightarrow>
          (case map_of kv ''main_suggestions'' of
             None \<Rightarrow> invalid ''Field required''
           | Some m \<Rightarrow>
          (case validate_MainSuggestions m of Inl e \<Rightarrow> Inl e | Inr ms \<Rightarrow>
          (case map_of kv ''normal_suggestions'' of
             None \<Rightarrow> invalid ''Field required''
           | Some n \<Rightarrow>
          (case validate_normal_suggestions n of Inl e \<Rightarrow> Inl e | Inr ns \<Rightarrow>
             Inr \<lparr>main_suggestions = ms, normal_suggestions = ns\<rparr>))))
      | _ \<Rightarrow> invalid ''Input should be a valid dictionary or instance of CombinedSuggestions'')"

subsection \<open>The model client and the collaborators of the pipeline\<close>

datatype kwarg = KStr string | KOptStr "string option" | KNum real

text \<open>The keyword arguments the module gives to \<open>ChatGoogleGenerativeAI\<close>.\<close>

definition gemini_kwargs :: "string option \<Rightarrow> (string \<times> kwarg) list" where
  "gemini_kwargs API_KEY =
     [(''model'', KStr ''gemini-2.5-pro''), (''google_api_key'', KOptStr API_KEY)]"

text \<open>
  One \<open>gemini.invoke([msg])\<close>: the client's construction arguments, the keyword
  arguments of the call itself (the source passes none), and the two content parts of
  the message.
\<close>

record gemini_call =
  client_kwargs :: "(string \<times> kwarg) list"
  invoke_kwargs :: "(string \<times> kwarg) list"
  prompt_text :: string
  image_url :: string

text \<open>
  The reply object: its \<open>content\<close> attribute may be missing, a \<open>str\<close>, or something else
  (then the source takes \<open>str(resp)\<close>).
\<close>

datatype resp_content = NoContentAttr | StrContent string | OtherContent

record gemini_response =
  content :: resp_content
  str_of_resp :: string

text \<open>
  The libraries the function calls are parameters: the environment's API key, the
  parser's format instructions, JPEG encoding with base64, the remote model, the JSON
  decoding inside \<open>PydanticOutputParser.parse\<close>, and \<open>json.loads\<close>.
\<close>

record 'img collaborators =
  api_key :: "string option"
  format_instructions :: string
  jpeg_base64 :: "'img \<Rightarrow> py_exc + string"
  gemini_invoke :: "gemini_call \<Rightarrow> py_exc + gemini_response"
  parser_decode :: "string \<Rightarrow> py_exc + json"
  json_loads :: "string \<Rightarrow> py_exc + json"

text \<open>The calls and prints a run makes, in order.\<close>

datatype event =
    CallInvoke gemini_call
  | CallParserParse string
  | Print string
  | CallJsonLoads string
  | CallModelValidate json

subsection \<open>The functions\<close>

definition pil_to_data_uri :: "'img collaborators \<Rightarrow> 'img \<Rightarrow> py_exc + string" where
  "pil_to_data_uri env img =
     (case jpeg_base64 env img of
        Inl e \<Rightarrow> Inl e
      | Inr b64 \<Rightarrow> Inr (''data:image/jpeg;base64,'' @ b64))"

text \<open>The prompt; the bullet of its last two lines (U+2022) is written \<open>*\<close> here.\<close>

definition prompt :: "'img collaborators \<Rightarrow> string" where
  "prompt env =
     ''Analyze the image carefully and return ONLY a single JSON object '' @
     ''containing exactly 4 main suggestions (one for each category: Movie Style, Mood, Color Focus, Other) '' @
     ''and exactly 15 general suggestions, all in natural human language.\<newline>\<newline>'' @
     ''*STRICT FORMAT INSTRUCTIONS*:\<newline>'' @
     format_instructions env @
     ''\<newline>\<newline>'' @
     ''*RULES FOR ALL 19 SUGGESTIONS*:\<newline>'' @
     ''- The output MUST contain exactly one main_suggestions object with 4 fields, and one normal_suggestions list with exactly 15 elements.\<newline>'' @
     ''- Keep each suggestion short and natural, as if a user wrote it.\<newline>'' @
     ''- NO numbers, NO technical terms, NO percentages, NO stops.\<newline>'' @
     ''- NO crop or composition instructions.\<newline>'' @
     ''- Suggestions MUST relate only to exposure, contrast, tone, temperature, tint, '' @
     ''highlights, shadows, whites, blacks, saturation, vibrance, or general color feel.\<newline>'' @
     ''- Style should match examples like:\<newline>'' @
     ''  * Main: 'Give this photo a dark, cinematic grade like a Christopher Nolan film.'\<newline>'' @
     ''  * Normal: 'Slightly reduce the overall exposure to add drama.'\<newline>''"

text \<open>Lines 109 and 110: the raw text of the reply, trimmed.\<close>

definition extract_raw :: "gemini_response \<Rightarrow> string" where
  "extract_raw resp =
     (case content resp of
        NoContentAttr \<Rightarrow> strip []
      | StrContent s \<Rightarrow> strip s
      | OtherContent \<Rightarrow> strip (str_of_resp resp))"

text \<open>Lines 112 and 113: the cleaning of a reply that starts with three backticks.\<close>

definition clean_raw :: "string \<Rightarrow> string" where
  "clean_raw raw =
     (if startswith raw ''```''
      then strip (replace ''json'' [] (strip_chars (\<lambda>c. c = CHR ''`'') (strip raw)))
      else raw)"

text \<open>
  \<open>parser.parse\<close> of a \<open>PydanticOutputParser\<close> built on \<open>CombinedSuggestions\<close>: decode the
  text, validate the value against the class, and raise \<open>OutputParserException\<close> when
  either step fails.
\<close>

definition parser_parse :: "'img collaborators \<Rightarrow> string \<Rightarrow> py_exc + CombinedSuggestions" where
  "parser_parse env text =
     (case parser_decode env text of
        Inl e \<Rightarrow> Inl (Raised OutputParserException (exc_str e))
      | Inr j \<Rightarrow>
          (case model_validate j of
             Inl e \<Rightarrow> Inl (Raised OutputParserException (exc_str e))
           | Inr b \<Rightarrow> Inr b))"

text \<open>Lines 116 to 121: the parse, and the direct JSON load when the parse raises.\<close>

definition parse_output ::
  "'img collaborators \<Rightarrow> string \<Rightarrow> event list \<times> (py_exc + CombinedSuggestions)" where
  "parse_output env raw =
     (case parser_parse env raw of
        Inr b \<Rightarrow> ([CallParserParse raw], Inr b)
      | Inl e \<Rightarrow>
          (case json_loads env raw of
             Inl e' \<Rightarrow>
               ([CallParserParse raw,
                 Print (''Pydantic parsing failed: '' @ exc_str e @ ''. Attempting direct JSON load.''),
                 CallJsonLoads raw], Inl e')
           | Inr j \<Rightarrow>
               ([CallParserParse raw,
                 Print (''Pydantic parsing failed: '' @ exc_str e @ ''. Attempting direct JSON load.''),
                 CallJsonLoads raw, CallModelValidate j], model_validate j)))"

definition gemini_user_style_suggestions ::
  "'img collaborators \<Rightarrow> 'img \<Rightarrow> event list \<times> (py_exc + CombinedSuggestions)" where
  "gemini_user_style_suggestions env img =
     (case pil_to_data_uri env img of
        Inl e \<Rightarrow> ([], Inl e)
      | Inr data_uri \<Rightarrow>
          (let call = \<lparr>client_kwargs = gemini_kwargs (api_key env), invoke_kwargs = [],
                       prompt_text = prompt env, image_url = data_uri\<rparr>
           in case gemini_invoke env call of
                Inl e \<Rightarrow> ([CallInvoke call], Inl e)
              | Inr resp \<Rightarrow>
                  (case parse_output env (clean_raw (extract_raw resp)) of
                     (evs, r) \<Rightarrow> (CallInvoke call # evs, r))))"

subsection \<open>Loading the module\<close>

text \<open>
  The top-level statements of the file, in order. An import, an assignment, a class or a
  function definition binds names in the module's namespace; the last statement is the
  \<open>if\<close> that guards the example block.
\<close>

datatype pyval = PStr string | PObject

datatype top_stmt =
    Import "string list"
  | Assign string
  | ClassDef string
  | FunDef string
  | ExprStmt string
  | IfNotPass string
  | IfEqExample string string


text \<open>
  The state of a load: the module's globals and whether the example block has run.
  Python sets \<open>__name__\<close> before the first statement: \<open>"__main__"\<close> for a script, the
  module's name for an import.
\<close>

record load_state =
  globals :: "(string \<times> pyval) list"
  example_ran :: bool

definition initial_state :: "string \<Rightarrow> load_state" where
  "initial_state run_name = \<lparr>globals = [(''__name__'', PStr run_name)], example_ran = False\<rparr>"

text \<open>A name is looked up in the globals, then in the builtins; unbound, it raises.\<close>

definition lookup_name ::
  "(string \<Rightarrow> pyval option) \<Rightarrow> load_state \<Rightarrow> string \<Rightarrow> py_exc + pyval" where
  "lookup_name builtins s n =
     (case map_of (globals s) n of
        Some v \<Rightarrow> Inr v
      | None \<Rightarrow>
          (case builtins n of
             Some v \<Rightarrow> Inr v
           | None \<Rightarrow>
               Inl (Raised NameError
                      (''name '' @ [CHR 0x27] @ n @ [CHR 0x27] @ '' is not defined''))))"

definition bind_names :: "string list \<Rightarrow> load_state \<Rightarrow> load_state" where
  "bind_names ns s = s\<lparr>globals := map (\<lambda>n. (n, PObject)) ns @ globals s\<rparr>"

text \<open>
  One statement. What a library call does is outside the file, so \<open>raises\<close> tells for each
  statement other than the guard whether it raises. The guard looks its name up and
  compares the value with the literal; the block runs when they are equal.
\<close>

fun exec_stmt ::
  "(string \<Rightarrow> pyval option) \<Rightarrow> (top_stmt \<Rightarrow> py_exc option) \<Rightarrow> load_state \<Rightarrow> top_stmt
     \<Rightarrow> py_exc + load_state" where
  "exec_stmt builtins raises s (IfEqExample n lit) =
     (case lookup_name builtins s n of
        Inl e \<Rightarrow> Inl e
      | Inr v \<Rightarrow> Inr (if v = PStr lit then s\<lparr>example_ran := True\<rparr> else s))"
| "exec_stmt builtins raises s (IfNotPass n) =
     (case lookup_name builtins s n of Inl e \<Rightarrow> Inl e | Inr v \<Rightarrow> Inr s)"
| "exec_stmt builtins raises s (Import ns) =
     (case raises (Import ns) of Some e \<Rightarrow> Inl e | None \<Rightarrow> Inr (bind_names ns s))"
| "exec_stmt builtins raises s (Assign n) =
     (case raises (Assign n) of Some e \<Rightarrow> Inl e | None \<Rightarrow> Inr (bind_names [n] s))"
| "exec_stmt builtins raises s (ClassDef n) =
     (case raises (ClassDef n) of Some e \<Rightarrow> Inl e | None \<Rightarrow> Inr (bind_names [n] s))"
| "exec_stmt builtins raises s (FunDef n) =
     (case raises (FunDef n) of Some e \<Rightarrow> Inl e | None \<Rightarrow> Inr (bind_names [n] s))"
| "exec_stmt builtins raises s (ExprStmt c) =
     (case raises (ExprStmt c) of Some e \<Rightarrow> Inl e | None \<Rightarrow> Inr s)"



subsection \<open>Stubs for concrete runs\<close>

text \<open>
  Collaborators that answer every call the same way: the remote model replies with the
  given text, the parser's decoder and \<open>json.loads\<close> return the given results.
\<close>

definition stub_collaborators ::
  "string \<Rightarrow> (py_exc + json) \<Rightarrow> (py_exc + json) \<Rightarrow> unit collaborators" where
  "stub_collaborators reply decoded loaded =
     \<lparr>api_key = None, format_instructions = [],
      jpeg_base64 = (\<lambda>_. Inr ''AAAA''),
      gemini_invoke = (\<lambda>_. Inr \<lparr>content = StrContent reply, str_of_resp = []\<rparr>),
      parser_decode = (\<lambda>_. decoded),
      json_loads = (\<lambda>_. loaded)\<rparr>"

text \<open>A JSON object of the bundle's shape with \<open>n\<close> normal suggestions.\<close>

definition bundle_json :: "nat \<Rightarrow> json" where
  "bundle_json n =
     JObject
       [(''main_suggestions'',
         JObject [(''movie_style_suggestion'', JString ''a''), (''mood_suggestion'', JString ''b''),
                  (''color_focus_suggestion'', JString ''c''),
                  (''other_main_suggestion'', JString ''d'')]),
        (''normal_suggestions'', JArray (replicate n (JString ''s'')))]"

text \<open>
  The relation between a decoded JSON value and the bundle validation builds from it:
  the object carries the four main fields and the list of normal suggestions, as
  strings, under the names the classes declare.
\<close>

definition well_shaped :: "json \<Rightarrow> CombinedSuggestions \<Rightarrow> bool" where
  "well_shaped j b \<longleftrightarrow>
     (\<exists>kv mkv. j = JObject kv \<and>
        map_of kv ''main_suggestions'' = Some (JObject mkv) \<and>
        map_of mkv ''movie_style_suggestion'' =
          Some (JString (movie_style_suggestion (main_suggestions b))) \<and>
        map_of mkv ''mood_suggestion'' = Some (JString (mood_suggestion (main_suggestions b))) \<and>
        map_of mkv ''color_focus_suggestion'' =
          Some (JString (color_focus_suggestion (main_suggestions b))) \<and>
        map_of mkv ''other_main_suggestion'' =
          Some (JString (other_main_suggestion (main_suggestions b))) \<and>
        map_of kv ''normal_suggestions'' = Some (JArray (map JString (normal_suggestions b))))"


section \<open>Facts about stripping\<close>

lemma dropWhile_rev_all:
  assumes "\<forall>x\<in>set b. P x"
  shows "dropWhile P (rev b @ ys) = dropWhile P ys"
  by (rule dropWhile_append2) (use assms in simp)

lemma rstrip_chars_prefix_self: "prefix (rstrip_chars P a) a"
proof -
  have "rev a = takeWhile P (rev a) @ dropWhile P (rev a)" by simp
  then have "a = rev (dropWhile P (rev a)) @ rev (takeWhile P (rev a))"
    by (metis rev_append rev_rev_ident)
  then show ?thesis
    unfolding rstrip_chars_def by (metis prefixI)
qed

lemma rstrip_prefix_append: "prefix (rstrip_chars P a) (rstrip_chars P (a @ b))"
proof (cases "\<forall>x\<in>set b. P x")
  case True
  then show ?thesis by (simp add: rstrip_chars_def dropWhile_rev_all)
next
  case False
  then obtain x where "x \<in> set (rev b)" "\<not> P x" by auto
  then have "dropWhile P (rev b @ rev a) = dropWhile P (rev b) @ rev a"
    by (rule dropWhile_append1)
  then have "rstrip_chars P (a @ b) = a @ rev (dropWhile P (rev b))"
    by (simp add: rstrip_chars_def)
  moreover have "prefix a (a @ rev (dropWhile P (rev b)))" by simp
  ultimately show ?thesis
    using rstrip_chars_prefix_self [of P a] prefix_order.trans by metis
qed

lemma lstrip_append:
  "lstrip_chars P (s @ t) = (if lstrip_chars P s = [] then lstrip_chars P t else lstrip_chars P s @ t)"
  by (induction s) (auto simp: lstrip_chars_def)

lemma strip_chars_prefix_append: "prefix (strip_chars P s) (strip_chars P (s @ t))"
  by (simp add: strip_chars_def lstrip_append rstrip_prefix_append)
     (simp add: rstrip_chars_def)

lemma strip_prefix_append: "prefix (strip s) (strip (s @ t))"
  by (simp add: strip_def strip_chars_prefix_append)

lemma rstrip_append_all: "\<forall>x\<in>set t. P x \<Longrightarrow> rstrip_chars P (s @ t) = rstrip_chars P s"
  by (simp add: rstrip_chars_def dropWhile_rev_all)

lemma lstrip_all: "\<forall>x\<in>set t. P x \<Longrightarrow> lstrip_chars P t = []"
  by (simp add: lstrip_chars_def)

lemma strip_chars_append_all:
  assumes "\<forall>x\<in>set t. P x"
  shows "strip_chars P (s @ t) = strip_chars P s"
proof (cases "lstrip_chars P s = []")
  case True
  then show ?thesis
    using assms by (simp add: strip_chars_def lstrip_append lstrip_all)
next
  case False
  then show ?thesis
    using assms by (simp add: strip_chars_def lstrip_append rstrip_append_all)
qed

lemma isspace_space: "isspace CHR '' ''"
  by (simp add: isspace_def)

lemma strip_append_space: "strip (s @ '' '') = strip s"
  by (simp add: strip_def strip_chars_append_all isspace_space)

lemma lstrip_idem: "lstrip_chars P (lstrip_chars P s) = lstrip_chars P s"
  by (simp add: lstrip_chars_def)

lemma rstrip_idem: "rstrip_chars P (rstrip_chars P s) = rstrip_chars P s"
  by (simp add: rstrip_chars_def)

lemma dropWhile_fixed_iff: "dropWhile P xs = xs \<longleftrightarrow> (xs = [] \<or> \<not> P (hd xs))"
proof (cases xs)
  case Nil
  then show ?thesis by simp
next
  case (Cons a list)
  have "length (dropWhile P list) \<le> length list" by (rule length_dropWhile_le)
  then have "dropWhile P list \<noteq> a # list" by auto
  then show ?thesis using Cons by auto
qed

lemma rstrip_fixed_iff: "rstrip_chars P s = s \<longleftrightarrow> (s = [] \<or> \<not> P (last s))"
proof (cases "s = []")
  case True
  then show ?thesis by (simp add: rstrip_chars_def)
next
  case False
  then have hd: "hd (rev s) = last s" by (simp add: hd_rev)
  have "rstrip_chars P s = s \<longleftrightarrow> dropWhile P (rev s) = rev s"
    unfolding rstrip_chars_def by (metis rev_rev_ident)
  also have "\<dots> \<longleftrightarrow> \<not> P (hd (rev s))"
    using False by (simp add: dropWhile_fixed_iff)
  finally show ?thesis using False hd by simp
qed

lemma lstrip_suffix: "\<exists>l. s = l @ lstrip_chars P s"
  unfolding lstrip_chars_def by (metis takeWhile_dropWhile_id)

lemma rstrip_lstrip_fixed:
  assumes "rstrip_chars P s = s"
  shows "rstrip_chars P (lstrip_chars P s) = lstrip_chars P s"
proof (cases "lstrip_chars P s = []")
  case True
  then show ?thesis by (simp add: rstrip_chars_def)
next
  case False
  obtain l where l: "s = l @ lstrip_chars P s" using lstrip_suffix by blast
  from False l have "last s = last (lstrip_chars P s)" by (metis last_appendR)
  moreover from False l have "s \<noteq> []" by auto
  ultimately show ?thesis using assms False by (simp add: rstrip_fixed_iff)
qed

lemma strip_chars_untrimmed_base:
  assumes "rstrip_chars P s = s"
  shows "strip_chars P (s @ x) = strip_chars P (strip_chars P s @ x)"
proof (cases "lstrip_chars P s = []")
  case True
  then have "strip_chars P s = []" by (simp add: strip_chars_def rstrip_chars_def)
  moreover have "strip_chars P (s @ x) = strip_chars P x"
    using True by (simp add: strip_chars_def lstrip_append)
  ultimately show ?thesis by simp
next
  case False
  have eq: "strip_chars P s = lstrip_chars P s"
    using assms by (simp add: strip_chars_def rstrip_lstrip_fixed)
  show ?thesis
    using False by (simp add: eq) (simp add: strip_chars_def lstrip_append lstrip_idem)
qed

lemma strip_idem: "strip (strip s) = strip s"
proof -
  have "prefix (rstrip_chars P x) x" for P x by (rule rstrip_chars_prefix_self)
  have "lstrip_chars P (rstrip_chars P (lstrip_chars P s)) = rstrip_chars P (lstrip_chars P s)" for P
  proof (cases "rstrip_chars P (lstrip_chars P s) = []")
    case True
    then show ?thesis by (simp add: lstrip_chars_def)
  next
    case False
    let ?l = "lstrip_chars P s"
    obtain zs where zs: "?l = rstrip_chars P ?l @ zs"
      using rstrip_chars_prefix_self [of P ?l] by (auto simp: prefix_def)
    then have "hd (rstrip_chars P ?l) = hd ?l" using False by (metis hd_append2)
    moreover have "?l \<noteq> []" using False by (auto simp: rstrip_chars_def)
    then have "\<not> P (hd ?l)" unfolding lstrip_chars_def by (rule hd_dropWhile)
    ultimately have "\<not> P (hd (rstrip_chars P ?l))" by simp
    then show ?thesis using False
      by (cases "rstrip_chars P ?l") (auto simp: lstrip_chars_def)
  qed
  then show ?thesis
    by (simp add: strip_def strip_chars_def rstrip_idem)
qed


lemma strip_eval: "strip s = rev (dropWhile isspace (rev (dropWhile isspace s)))"
  by (simp add: strip_def strip_chars_def rstrip_chars_def lstrip_chars_def)


section \<open>The text service: response assembly\<close>

lemma handler_response:
  "fst (autocomplete st r) = Inr resp \<or> fst (refine st r) = Inr resp \<Longrightarrow>
     \<exists>out. completion resp = strip out \<and>
       full_text resp = strip (sentence r @ '' '' @ completion resp)"
  by (auto simp: autocomplete_def refine_def autocomplete_lightart_def refine_lightart_def
      create_chat_completion_def split: if_splits prod.splits sum.splits option.splits)

text \<open>
  When the model answers, the handler answers: with a loaded model, a sentence that is
  not blank and a model that replies \<open>out\<close> to every call, \<open>/autocomplete\<close> returns the
  trimmed reply as the completion.
\<close>

lemma autocomplete_returns:
  "llm st = Some (fixed_reply out) \<Longrightarrow> strip (sentence r) \<noteq> [] \<Longrightarrow>
     fst (autocomplete st r) =
       Inr \<lparr>completion = strip out, full_text = strip (sentence r @ '' '' @ strip out)\<rparr>"
  by (simp add: autocomplete_def autocomplete_lightart_def create_chat_completion_def
      fixed_reply_def)

lemma refine_returns:
  "llm st = Some (fixed_reply out) \<Longrightarrow> strip (sentence r) \<noteq> [] \<Longrightarrow>
     fst (refine st r) =
       Inr \<lparr>completion = strip out, full_text = strip (sentence r @ '' '' @ strip out)\<rparr>"
  by (simp add: refine_def refine_lightart_def create_chat_completion_def fixed_reply_def)

text \<open>
  Claim C4, as amended. Whenever \<open>/autocomplete\<close> or \<open>/refine\<close> returns a response, its
  \<open>full_text\<close> is the sentence as received, a space and the completion, the whole
  trimmed; the completion is already trimmed. With an empty completion \<open>full_text\<close> is
  the trimmed sentence. The sentence itself is not trimmed before the completion is
  appended, so \<open>full_text\<close> is the trimmed sentence, one space and the trimmed completion
  when the sentence has no trailing whitespace.
\<close>

theorem full_text_assembly:
  "fst (autocomplete st r) = Inr resp \<or> fst (refine st r) = Inr resp \<Longrightarrow>
     full_text resp = strip (sentence r @ '' '' @ completion resp) \<and>
     strip (completion resp) = completion resp \<and>
     (completion resp = [] \<longrightarrow> full_text resp = strip (sentence r)) \<and>
     (rstrip_chars isspace (sentence r) = sentence r \<longrightarrow>
        full_text resp = strip (strip (sentence r) @ '' '' @ strip (completion resp)))"
proof -
  assume "fst (autocomplete st r) = Inr resp \<or> fst (refine st r) = Inr resp"
  then obtain out where c: "completion resp = strip out"
    and f: "full_text resp = strip (sentence r @ '' '' @ completion resp)"
    using handler_response by blast
  have idem: "strip (completion resp) = completion resp" by (simp add: c strip_idem)
  have empty: "completion resp = [] \<longrightarrow> full_text resp = strip (sentence r)"
    using f by (auto simp: strip_append_space)
  have trimmed: "rstrip_chars isspace (sentence r) = sentence r \<longrightarrow>
        full_text resp = strip (strip (sentence r) @ '' '' @ strip (completion resp))"
    using f idem strip_chars_untrimmed_base [of isspace "sentence r" "'' '' @ completion resp"]
    by (simp add: strip_def)
  from f idem empty trimmed show ?thesis by blast
qed

theorem full_text_assembly_witness:
  "fst (autocomplete \<lparr>llm = Some (fixed_reply '' warm glow ''), invocations = []\<rparr>
          \<lparr>sentence = '' soften the overall'', suggestions = [''warm glow'']\<rparr>)
     = Inr \<lparr>completion = ''warm glow'', full_text = ''soften the overall warm glow''\<rparr> \<and>
   rstrip_chars isspace '' soften the overall'' = '' soften the overall'' \<and>
   ''soften the overall warm glow'' =
     strip (strip '' soften the overall'' @ '' '' @ strip ''warm glow'') \<and>
   fst (refine \<lparr>llm = Some (fixed_reply ''  ''), invocations = []\<rparr>
          \<lparr>sentence = ''soften the overall  '', suggestions = [''warm glow'']\<rparr>)
     = Inr \<lparr>completion = [], full_text = ''soften the overall''\<rparr> \<and>
   ''soften the overall'' = strip ''soften the overall  ''"
proof -
  have a: "fst (autocomplete \<lparr>llm = Some (fixed_reply '' warm glow ''), invocations = []\<rparr>
          \<lparr>sentence = '' soften the overall'', suggestions = [''warm glow'']\<rparr>)
     = Inr \<lparr>completion = ''warm glow'', full_text = ''soften the overall warm glow''\<rparr>"
    by (simp add: autocomplete_def autocomplete_lightart_def create_chat_completion_def
        fixed_reply_def strip_eval isspace_def)
  have b: "fst (refine \<lparr>llm = Some (fixed_reply ''  ''), invocations = []\<rparr>
          \<lparr>sentence = ''soften the overall  '', suggestions = [''warm glow'']\<rparr>)
     = Inr \<lparr>completion = [], full_text = ''soften the overall''\<rparr>"
    by (simp add: refine_def refine_lightart_def create_chat_completion_def
        fixed_reply_def strip_eval isspace_def)
  have n: "rstrip_chars isspace '' soften the overall'' = '' soften the overall''"
    by (simp add: rstrip_chars_def isspace_def)
  show ?thesis
    using a b n full_text_assembly [OF disjI1 [OF a]] full_text_assembly [OF disjI2 [OF b]]
    by (simp add: strip_eval isspace_def)
qed

theorem full_text_trailing_space_counterexample:
  "fst (autocomplete \<lparr>llm = Some (fixed_reply ''warm''), invocations = []\<rparr>
          \<lparr>sentence = ''soften  '', suggestions = [''warm'']\<rparr>)
     = Inr \<lparr>completion = ''warm'', full_text = ''soften   warm''\<rparr> \<and>
   strip (strip ''soften  '' @ '' '' @ strip ''warm'') = ''soften warm'' \<and>
   ''soften   warm'' \<noteq> ''soften warm''"
  by (simp add: autocomplete_def autocomplete_lightart_def create_chat_completion_def
      fixed_reply_def strip_eval isspace_def)

text \<open>
  Claim C5. For a loaded model and a sentence that is not blank, whatever text \<open>out\<close> the
  model replies to the handler's call, \<open>/autocomplete\<close> and \<open>/refine\<close> each return a
  response whose completion is the trimmed reply and whose \<open>full_text\<close> starts with the
  trimmed sentence; and every response either handler returns, on any input, has a
  \<open>full_text\<close> that starts with the trimmed sentence. The list of suggestions plays no
  part.
\<close>

theorem full_text_starts_with_sentence:
  "(fst (autocomplete st r) = Inr resp \<or> fst (refine st r) = Inr resp \<longrightarrow>
      prefix (strip (sentence r)) (full_text resp)) \<and>
   (llm st = Some m \<and> strip (sentence r) \<noteq> [] \<and>
    m (invocations st)
      \<lparr>messages =
         [(''system'', [Lit ''Autocomplete using ONLY the allowed suggestions.'']),
          (''user'', autocomplete_prompt (sentence r) (suggestions r))],
       max_tokens = 20, temperature = 0.1, top_p = 0.9\<rparr> = Inr out \<longrightarrow>
      fst (autocomplete st r) =
        Inr \<lparr>completion = strip out, full_text = strip (sentence r @ '' '' @ strip out)\<rparr> \<and>
      prefix (strip (sentence r)) (strip (sentence r @ '' '' @ strip out))) \<and>
   (llm st = Some m \<and> strip (sentence r) \<noteq> [] \<and>
    m (invocations st)
      \<lparr>messages =
         [(''system'',
           [Lit ''Refine using ONLY the allowed suggestions. Generate approximately 12 words.'']),
          (''user'', refine_prompt (sentence r) (suggestions r))],
       max_tokens = 50, temperature = 0.2, top_p = 0.9\<rparr> = Inr out' \<longrightarrow>
      fst (refine st r) =
        Inr \<lparr>completion = strip out', full_text = strip (sentence r @ '' '' @ strip out')\<rparr> \<and>
      prefix (strip (sentence r)) (strip (sentence r @ '' '' @ strip out')))"
proof (intro conjI impI)
  assume "fst (autocomplete st r) = Inr resp \<or> fst (refine st r) = Inr resp"
  then show "prefix (strip (sentence r)) (full_text resp)"
    using handler_response strip_prefix_append by metis
next
  assume "llm st = Some m \<and> strip (sentence r) \<noteq> [] \<and>
    m (invocations st)
      \<lparr>messages =
         [(''system'', [Lit ''Autocomplete using ONLY the allowed suggestions.'']),
          (''user'', autocomplete_prompt (sentence r) (suggestions r))],
       max_tokens = 20, temperature = 0.1, top_p = 0.9\<rparr> = Inr out"
  then show "fst (autocomplete st r) =
        Inr \<lparr>completion = strip out, full_text = strip (sentence r @ '' '' @ strip out)\<rparr>"
    by (simp add: autocomplete_def autocomplete_lightart_def create_chat_completion_def)
next
  show "prefix (strip (sentence r)) (strip (sentence r @ '' '' @ strip out))"
    by (rule strip_prefix_append)
next
  assume "llm st = Some m \<and> strip (sentence r) \<noteq> [] \<and>
    m (invocations st)
      \<lparr>messages =
         [(''system'',
           [Lit ''Refine using ONLY the allowed suggestions. Generate approximately 12 words.'']),
          (''user'', refine_prompt (sentence r) (suggestions r))],
       max_tokens = 50, temperature = 0.2, top_p = 0.9\<rparr> = Inr out'"
  then show "fst (refine st r) =
        Inr \<lparr>completion = strip out', full_text = strip (sentence r @ '' '' @ strip out')\<rparr>"
    by (simp add: refine_def refine_lightart_def create_chat_completion_def)
next
  show "prefix (strip (sentence r)) (strip (sentence r @ '' '' @ strip out'))"
    by (rule strip_prefix_append)
qed

theorem full_text_starts_with_sentence_witness:
  "strip '' soften  '' = ''soften'' \<and>
   fst (autocomplete \<lparr>llm = Some (fixed_reply '' warm glow''), invocations = []\<rparr>
          \<lparr>sentence = '' soften  '', suggestions = [''warm glow'']\<rparr>)
     = Inr \<lparr>completion = ''warm glow'', full_text = ''soften   warm glow''\<rparr> \<and>
   prefix ''soften'' ''soften   warm glow'' \<and>
   fst (refine \<lparr>llm = Some (fixed_reply ''with amber''), invocations = []\<rparr>
          \<lparr>sentence = '' soften  '', suggestions = [''amber'']\<rparr>)
     = Inr \<lparr>completion = ''with amber'', full_text = ''soften   with amber''\<rparr> \<and>
   prefix ''soften'' ''soften   with amber''"
proof -
  let ?sa = "\<lparr>llm = Some (fixed_reply '' warm glow''), invocations = []\<rparr>"
  let ?ra = "\<lparr>sentence = '' soften  '', suggestions = [''warm glow'']\<rparr>"
  let ?sr = "\<lparr>llm = Some (fixed_reply ''with amber''), invocations = []\<rparr>"
  let ?rr = "\<lparr>sentence = '' soften  '', suggestions = [''amber'']\<rparr>"
  have s: "strip '' soften  '' = ''soften''"
    by (simp add: strip_eval isspace_def)
  have ne: "strip (sentence ?ra) \<noteq> []" "strip (sentence ?rr) \<noteq> []"
    by (simp_all add: strip_eval isspace_def)
  have ha: "llm ?sa = Some (fixed_reply '' warm glow'') \<and> strip (sentence ?ra) \<noteq> [] \<and>
    fixed_reply '' warm glow'' (invocations ?sa)
      \<lparr>messages =
         [(''system'', [Lit ''Autocomplete using ONLY the allowed suggestions.'']),
          (''user'', autocomplete_prompt (sentence ?ra) (suggestions ?ra))],
       max_tokens = 20, temperature = 0.1, top_p = 0.9\<rparr> = Inr '' warm glow''"
    using ne by (simp add: fixed_reply_def)
  have hr: "llm ?sr = Some (fixed_reply ''with amber'') \<and> strip (sentence ?rr) \<noteq> [] \<and>
    fixed_reply ''with amber'' (invocations ?sr)
      \<lparr>messages =
         [(''system'',
           [Lit ''Refine using ONLY the allowed suggestions. Generate approximately 12 words.'']),
          (''user'', refine_prompt (sentence ?rr) (suggestions ?rr))],
       max_tokens = 50, temperature = 0.2, top_p = 0.9\<rparr> = Inr ''with amber''"
    using ne by (simp add: fixed_reply_def)
  note a = full_text_starts_with_sentence
      [of ?sa ?ra _ "fixed_reply '' warm glow''" "'' warm glow''",
       THEN conjunct2, THEN conjunct1, rule_format, OF ha]
  note b = full_text_starts_with_sentence
      [of ?sr ?rr _ "fixed_reply ''with amber''" _ "''with amber''",
       THEN conjunct2, THEN conjunct2, rule_format, OF hr]
  have a1: "fst (autocomplete ?sa ?ra)
     = Inr \<lparr>completion = ''warm glow'', full_text = ''soften   warm glow''\<rparr>"
    using a by (simp add: strip_eval isspace_def)
  have a2: "prefix ''soften'' ''soften   warm glow''"
    using a by (simp add: strip_eval isspace_def)
  have b1: "fst (refine ?sr ?rr)
     = Inr \<lparr>completion = ''with amber'', full_text = ''soften   with amber''\<rparr>"
    using b by (simp add: strip_eval isspace_def)
  have b2: "prefix ''soften'' ''soften   with amber''"
    using b by (simp add: strip_eval isspace_def)
  show ?thesis
    by (intro conjI) (rule s, rule a1, rule a2, rule b1, rule b2)
qed

section \<open>The text service: the order of the checks\<close>

text \<open>
  Claim C6, as amended. For a request to \<open>/autocomplete\<close> or \<open>/refine\<close> whose sentence
  is empty after trimming, the model is not called and the state is left as it was;
  the handler raises status 400 when the model is loaded, and status 503 when it is
  not, since the model handle is checked first.
\<close>

theorem empty_sentence_rejected:
  "strip (sentence r) = [] \<Longrightarrow>
     snd (autocomplete st r) = st \<and> snd (refine st r) = st \<and>
     (llm st \<noteq> None \<longrightarrow>
        fst (autocomplete st r) = Inl (HTTPException 400 ''Sentence cannot be empty'') \<and>
        fst (refine st r) = Inl (HTTPException 400 ''Sentence cannot be empty'')) \<and>
     (llm st = None \<longrightarrow>
        fst (autocomplete st r) =
          Inl (HTTPException 503 ''Model not loaded. Please restart the server.'') \<and>
        fst (refine st r) =
          Inl (HTTPException 503 ''Model not loaded. Please restart the server.''))"
  by (simp add: autocomplete_def refine_def)

theorem empty_sentence_rejected_witness:
  "strip ''   '' = [] \<and>
   autocomplete \<lparr>llm = Some (fixed_reply ''warm''), invocations = []\<rparr>
       \<lparr>sentence = ''   '', suggestions = [''warm'']\<rparr>
     = (Inl (HTTPException 400 ''Sentence cannot be empty''),
        \<lparr>llm = Some (fixed_reply ''warm''), invocations = []\<rparr>) \<and>
   refine \<lparr>llm = None, invocations = []\<rparr> \<lparr>sentence = [], suggestions = [''warm'']\<rparr>
     = (Inl (HTTPException 503 ''Model not loaded. Please restart the server.''),
        \<lparr>llm = None, invocations = []\<rparr>)"
proof -
  have e: "strip ''   '' = []" "strip [] = []"
    by (simp_all add: strip_eval isspace_def)
  have a: "sentence \<lparr>sentence = ''   '', suggestions = [''warm'']\<rparr> = ''   ''"
    and b: "sentence \<lparr>sentence = [], suggestions = [''warm'']\<rparr> = []" by simp_all
  show ?thesis
    using e
      empty_sentence_rejected [of "\<lparr>sentence = ''   '', suggestions = [''warm'']\<rparr>"
        "\<lparr>llm = Some (fixed_reply ''warm''), invocations = []\<rparr>"]
      empty_sentence_rejected [of "\<lparr>sentence = [], suggestions = [''warm'']\<rparr>"
        "\<lparr>llm = None, invocations = []\<rparr>"]
    by (simp add: prod_eq_iff)
qed

theorem empty_sentence_unloaded_counterexample:
  "strip ''   '' = [] \<and>
   fst (autocomplete \<lparr>llm = None, invocations = []\<rparr>
          \<lparr>sentence = ''   '', suggestions = [''warm'']\<rparr>)
     = Inl (HTTPException 503 ''Model not loaded. Please restart the server.'') \<and>
   status_code (HTTPException 503 ''Model not loaded. Please restart the server.'') \<noteq> 400"
  by (simp add: autocomplete_def strip_eval isspace_def)

lemma dispatch_unloaded:
  "llm st = None \<Longrightarrow> c \<noteq> GetRoot \<Longrightarrow>
     snd (dispatch st c) = st \<and> (\<exists>d. fst (dispatch st c) = Inl (HTTPException 503 d))"
  by (cases c) (simp_all add: health_check_def autocomplete_def refine_def)

lemma serve_unloaded:
  "llm st = None \<Longrightarrow> GetRoot \<notin> set cs \<Longrightarrow>
     snd (serve st cs) = st \<and> length (fst (serve st cs)) = length cs \<and>
     (\<forall>x\<in>set (fst (serve st cs)). \<exists>d. x = Inl (HTTPException 503 d))"
proof (induction cs)
  case Nil
  then show ?case by simp
next
  case (Cons c cs)
  then have d: "snd (dispatch st c) = st" "\<exists>d. fst (dispatch st c) = Inl (HTTPException 503 d)"
    using dispatch_unloaded [of st c] by auto
  from Cons have ih: "snd (serve st cs) = st" "length (fst (serve st cs)) = length cs"
    "\<forall>x\<in>set (fst (serve st cs)). \<exists>d. x = Inl (HTTPException 503 d)" by auto
  obtain r where r: "dispatch st c = (r, st)" using d(1) by (cases "dispatch st c") auto
  obtain rs where rs: "serve st cs = (rs, st)" using ih(1) by (cases "serve st cs") auto
  show ?case using d ih r rs by auto
qed

text \<open>
  Claim C7. When \<open>llm\<close> is \<open>None\<close>, \<open>/health\<close>, \<open>/autocomplete\<close> and \<open>/refine\<close> each raise
  status 503 and leave the state as it was, so the handle stays \<open>None\<close>: in any
  sequence of requests to these three routes every one is answered with 503 and the
  state at the end is the state at the start.
\<close>

theorem unloaded_model_unavailable:
  "llm st = None \<Longrightarrow>
     health_check st =
       (Inl (HTTPException 503 ''Model not loaded. Please check server logs.''), st) \<and>
     autocomplete st r =
       (Inl (HTTPException 503 ''Model not loaded. Please restart the server.''), st) \<and>
     refine st r =
       (Inl (HTTPException 503 ''Model not loaded. Please restart the server.''), st) \<and>
     (GetRoot \<notin> set cs \<longrightarrow>
        snd (serve st cs) = st \<and> length (fst (serve st cs)) = length cs \<and>
        (\<forall>x\<in>set (fst (serve st cs)). \<exists>d. x = Inl (HTTPException 503 d)))"
  using serve_unloaded [of st cs]
  by (simp add: health_check_def autocomplete_def refine_def)

theorem unloaded_model_unavailable_witness:
  "llm \<lparr>llm = None, invocations = []\<rparr> = None \<and>
   GetRoot \<notin> set [GetHealth, PostAutocomplete \<lparr>sentence = ''soften'', suggestions = [''warm'']\<rparr>,
                    PostRefine \<lparr>sentence = ''soften'', suggestions = [''warm'']\<rparr>, GetHealth] \<and>
   serve \<lparr>llm = None, invocations = []\<rparr>
     [GetHealth, PostAutocomplete \<lparr>sentence = ''soften'', suggestions = [''warm'']\<rparr>,
      PostRefine \<lparr>sentence = ''soften'', suggestions = [''warm'']\<rparr>, GetHealth]
   = ([Inl (HTTPException 503 ''Model not loaded. Please check server logs.''),
       Inl (HTTPException 503 ''Model not loaded. Please restart the server.''),
       Inl (HTTPException 503 ''Model not loaded. Please restart the server.''),
       Inl (HTTPException 503 ''Model not loaded. Please check server logs.'')],
      \<lparr>llm = None, invocations = []\<rparr>)"
  using unloaded_model_unavailable [of "\<lparr>llm = None, invocations = []\<rparr>"
      "\<lparr>sentence = ''soften'', suggestions = [''warm'']\<rparr>"
      "[GetHealth, PostAutocomplete \<lparr>sentence = ''soften'', suggestions = [''warm'']\<rparr>,
        PostRefine \<lparr>sentence = ''soften'', suggestions = [''warm'']\<rparr>, GetHealth]"]
  by simp

text \<open>
  Claim C8. Both handlers test the model handle before the sentence: a request with a
  blank sentence made while the model is not loaded gets status 503, not status 400.
\<close>

theorem availability_checked_first:
  "llm st = None \<Longrightarrow> strip (sentence r) = [] \<Longrightarrow>
     fst (autocomplete st r) =
       Inl (HTTPException 503 ''Model not loaded. Please restart the server.'') \<and>
     fst (refine st r) =
       Inl (HTTPException 503 ''Model not loaded. Please restart the server.'') \<and>
     fst (autocomplete st r) \<noteq> Inl (HTTPException 400 ''Sentence cannot be empty'') \<and>
     fst (refine st r) \<noteq> Inl (HTTPException 400 ''Sentence cannot be empty'')"
  by (simp add: autocomplete_def refine_def)

theorem availability_checked_first_witness:
  "llm \<lparr>llm = None, invocations = []\<rparr> = None \<and>
   strip (sentence \<lparr>sentence = [CHR 0x09, CHR '' ''], suggestions = [''warm'']\<rparr>) = [] \<and>
   fst (refine \<lparr>llm = None, invocations = []\<rparr>
          \<lparr>sentence = [CHR 0x09, CHR '' ''], suggestions = [''warm'']\<rparr>)
     = Inl (HTTPException 503 ''Model not loaded. Please restart the server.'')"
proof -
  have l: "llm \<lparr>llm = None, invocations = []\<rparr> = None" by simp
  have e: "strip (sentence \<lparr>sentence = [CHR 0x09, CHR '' ''], suggestions = [''warm'']\<rparr>) = []"
    by (simp add: strip_eval isspace_def)
  show ?thesis
    using l e availability_checked_first [OF l e] by simp
qed

section \<open>The text service and the image pipeline: sampling options\<close>

lemma parse_output_no_invoke:
  "parse_output env raw = (evs, res) \<Longrightarrow> CallInvoke call \<notin> set evs"
  by (auto simp: parse_output_def split: sum.splits)

text \<open>
  Claim C9, as amended. Every call \<open>/autocomplete\<close> makes to the model carries
  \<open>max_tokens = 20\<close>, \<open>temperature = 0.1\<close> and \<open>top_p = 0.9\<close>, and every call \<open>/refine\<close>
  makes carries \<open>max_tokens = 50\<close>, \<open>temperature = 0.2\<close> and \<open>top_p = 0.9\<close>; each handler
  makes at most one call. The image pipeline sets no sampling option at all: its client
  is built from the model name and the API key only, and \<open>invoke\<close> gets no keyword
  argument, so no temperature, nucleus threshold or output limit is given there.
\<close>

theorem sampling_configuration:
  "(\<exists>new. invocations (snd (autocomplete st r)) = invocations st @ new \<and> length new \<le> 1 \<and>
      (\<forall>c\<in>set new. max_tokens c = 20 \<and> temperature c = 0.1 \<and> top_p c = 0.9)) \<and>
   (\<exists>new. invocations (snd (refine st r)) = invocations st @ new \<and> length new \<le> 1 \<and>
      (\<forall>c\<in>set new. max_tokens c = 50 \<and> temperature c = 0.2 \<and> top_p c = 0.9)) \<and>
   (\<forall>call. CallInvoke call \<in> set (fst (gemini_user_style_suggestions env img)) \<longrightarrow>
      invoke_kwargs call = [] \<and> client_kwargs call = gemini_kwargs (api_key env) \<and>
      map_of (client_kwargs call) ''temperature'' = None \<and>
      map_of (client_kwargs call) ''top_p'' = None \<and>
      map_of (client_kwargs call) ''max_output_tokens'' = None)"
proof -
  have a: "\<exists>new. invocations (snd (autocomplete st r)) = invocations st @ new \<and> length new \<le> 1 \<and>
      (\<forall>c\<in>set new. max_tokens c = 20 \<and> temperature c = 0.1 \<and> top_p c = 0.9)"
    by (auto simp: autocomplete_def autocomplete_lightart_def create_chat_completion_def
        split: sum.splits option.splits)
  have b: "\<exists>new. invocations (snd (refine st r)) = invocations st @ new \<and> length new \<le> 1 \<and>
      (\<forall>c\<in>set new. max_tokens c = 50 \<and> temperature c = 0.2 \<and> top_p c = 0.9)"
    by (auto simp: refine_def refine_lightart_def create_chat_completion_def
        split: sum.splits option.splits)
  have c: "CallInvoke call \<in> set (fst (gemini_user_style_suggestions env img)) \<longrightarrow>
      invoke_kwargs call = [] \<and> client_kwargs call = gemini_kwargs (api_key env) \<and>
      map_of (client_kwargs call) ''temperature'' = None \<and>
      map_of (client_kwargs call) ''top_p'' = None \<and>
      map_of (client_kwargs call) ''max_output_tokens'' = None" for call
    by (auto simp: gemini_user_style_suggestions_def gemini_kwargs_def Let_def
        split: sum.splits prod.splits dest: parse_output_no_invoke)
  from a b c show ?thesis by blast
qed

theorem sampling_configuration_witness:
  "(\<exists>c\<in>set (invocations (snd (autocomplete \<lparr>llm = Some (fixed_reply ''warm''), invocations = []\<rparr>
                \<lparr>sentence = ''soften'', suggestions = [''warm'']\<rparr>))).
      max_tokens c = 20 \<and> temperature c = 0.1 \<and> top_p c = 0.9) \<and>
   (\<exists>c\<in>set (invocations (snd (refine \<lparr>llm = Some (fixed_reply ''warm''), invocations = []\<rparr>
                \<lparr>sentence = ''soften'', suggestions = [''warm'']\<rparr>))).
      max_tokens c = 50 \<and> temperature c = 0.2 \<and> top_p c = 0.9) \<and>
   (\<exists>call. CallInvoke call \<in> set (fst (gemini_user_style_suggestions
                (stub_collaborators ''{}'' (Inr JNull) (Inr JNull)) ())) \<and>
      invoke_kwargs call = [] \<and> map_of (client_kwargs call) ''top_p'' = None)"
proof -
  let ?st = "\<lparr>llm = Some (fixed_reply ''warm''), invocations = []\<rparr>"
  let ?r = "\<lparr>sentence = ''soften'', suggestions = [''warm'']\<rparr>"
  let ?env = "stub_collaborators ''{}'' (Inr JNull) (Inr JNull)"
  have na: "invocations (snd (autocomplete ?st ?r)) \<noteq> []"
    by (simp add: autocomplete_def autocomplete_lightart_def create_chat_completion_def
        fixed_reply_def strip_eval isspace_def)
  have nb: "invocations (snd (refine ?st ?r)) \<noteq> []"
    by (simp add: refine_def refine_lightart_def create_chat_completion_def
        fixed_reply_def strip_eval isspace_def)
  have nc: "\<exists>call. CallInvoke call \<in> set (fst (gemini_user_style_suggestions ?env ()))"
    by (auto simp: gemini_user_style_suggestions_def pil_to_data_uri_def stub_collaborators_def
        Let_def split: prod.splits)
  note sc = sampling_configuration [of ?st ?r ?env "()"]
  from sc obtain new where a: "invocations (snd (autocomplete ?st ?r)) = invocations ?st @ new"
    "\<forall>c\<in>set new. max_tokens c = 20 \<and> temperature c = 0.1 \<and> top_p c = 0.9" by blast
  from sc obtain new' where b: "invocations (snd (refine ?st ?r)) = invocations ?st @ new'"
    "\<forall>c\<in>set new'. max_tokens c = 50 \<and> temperature c = 0.2 \<and> top_p c = 0.9" by blast
  from a na have a': "\<exists>c\<in>set (invocations (snd (autocomplete ?st ?r))).
      max_tokens c = 20 \<and> temperature c = 0.1 \<and> top_p c = 0.9"
    by (cases new) auto
  from b nb have b': "\<exists>c\<in>set (invocations (snd (refine ?st ?r))).
      max_tokens c = 50 \<and> temperature c = 0.2 \<and> top_p c = 0.9"
    by (cases new') auto
  from sc nc have c': "\<exists>call. CallInvoke call \<in> set (fst (gemini_user_style_suggestions ?env ())) \<and>
      invoke_kwargs call = [] \<and> map_of (client_kwargs call) ''top_p'' = None"
    by blast
  from a' b' c' show ?thesis by blast
qed

theorem gemini_top_p_counterexample:
  "map_of (gemini_kwargs None) ''top_p'' \<noteq> Some (KNum 0.9) \<and>
   map_of (gemini_kwargs None) ''temperature'' = None"
  by (simp add: gemini_kwargs_def)

section \<open>The image pipeline: cleaning the reply\<close>

lemma strip_chars_eval: "strip_chars P s = rev (dropWhile P (rev (dropWhile P s)))"
  by (simp add: strip_chars_def rstrip_chars_def lstrip_chars_def)

text \<open>The two examples of the specification hold.\<close>

lemma clean_raw_fenced_example:
  \<open>clean_raw ''```json\<newline>{"a":1}\<newline>```'' = ''{"a":1}''\<close>
  by (simp add: clean_raw_def startswith_def strip_eval strip_chars_eval isspace_def)

lemma clean_raw_unfenced_example: \<open>clean_raw ''{"a":1}'' = ''{"a":1}''\<close>
  by (simp add: clean_raw_def startswith_def)

text \<open>A reply that does not start with three backticks is passed on as it is.\<close>

lemma clean_raw_unfenced: "\<not> startswith raw ''```'' \<Longrightarrow> clean_raw raw = raw"
  by (simp add: clean_raw_def)

text \<open>
  Claim C1. The inner content of a fenced reply should come out unchanged. The code
  removes the language tag with \<open>replace("json", "")\<close>, which deletes every occurrence of
  \<open>json\<close> in the text, also inside the content: a fenced object with the key \<open>json\<close>
  comes out with an empty key.
\<close>

theorem clean_raw_removes_json_in_content:
  \<open>clean_raw ''```json\<newline>{"json":1}\<newline>```'' = ''{"":1}''\<close>
  by (simp add: clean_raw_def startswith_def strip_eval strip_chars_eval isspace_def)

section \<open>The image pipeline: validation against the schema\<close>

lemma validate_str_Inr: "validate_str x = Inr s \<Longrightarrow> x = JString s"
  by (cases x) (auto simp: invalid_def)

lemma required_str_Inr: "required_str kv k = Inr s \<Longrightarrow> map_of kv k = Some (JString s)"
  by (auto simp: required_str_def invalid_def split: option.splits dest: validate_str_Inr)

lemma validate_str_list_Inr: "validate_str_list xs = Inr ss \<Longrightarrow> xs = map JString ss"
  by (induction xs arbitrary: ss) (auto split: sum.splits dest: validate_str_Inr)

lemma validate_str_list_replicate:
  "validate_str_list (replicate n (JString s)) = Inr (replicate n s)"
  by (induction n) auto

lemma validate_normal_suggestions_Inr:
  "validate_normal_suggestions x = Inr ss \<Longrightarrow> x = JArray (map JString ss) \<and> length ss = 15"
  by (cases x)
     (auto simp: validate_normal_suggestions_def invalid_def split: if_splits
           dest!: validate_str_list_Inr)

lemma validate_MainSuggestions_Inr:
  "validate_MainSuggestions x = Inr m \<Longrightarrow>
     \<exists>kv. x = JObject kv \<and>
       map_of kv ''movie_style_suggestion'' = Some (JString (movie_style_suggestion m)) \<and>
       map_of kv ''mood_suggestion'' = Some (JString (mood_suggestion m)) \<and>
       map_of kv ''color_focus_suggestion'' = Some (JString (color_focus_suggestion m)) \<and>
       map_of kv ''other_main_suggestion'' = Some (JString (other_main_suggestion m))"
  by (cases x)
     (auto simp: validate_MainSuggestions_def invalid_def split: sum.splits
           dest!: required_str_Inr)

text \<open>A validated bundle has the shape of the schema and fifteen normal suggestions.\<close>

lemma model_validate_Inr:
  "model_validate j = Inr b \<Longrightarrow> well_shaped j b \<and> length (normal_suggestions b) = 15"
  by (cases j)
     (auto simp: model_validate_def invalid_def well_shaped_def split: option.splits sum.splits
           dest!: validate_MainSuggestions_Inr validate_normal_suggestions_Inr)

text \<open>Whatever validation rejects, it rejects with a \<open>ValidationError\<close>.\<close>

lemma model_validate_error_class: "model_validate j = Inl e \<Longrightarrow> exc_class e = ValidationError"
proof -
  have s: "validate_str x = Inl e \<Longrightarrow> exc_class e = ValidationError" for x e
    by (cases x) (auto simp: invalid_def)
  have r: "required_str kv k = Inl e \<Longrightarrow> exc_class e = ValidationError" for kv k e
    by (auto simp: required_str_def invalid_def split: option.splits dest: s)
  have l: "validate_str_list xs = Inl e \<Longrightarrow> exc_class e = ValidationError" for xs e
    by (induction xs) (auto split: sum.splits dest: s)
  have m: "validate_MainSuggestions x = Inl e \<Longrightarrow> exc_class e = ValidationError" for x e
    by (cases x) (auto simp: validate_MainSuggestions_def invalid_def split: sum.splits dest: r)
  have n: "validate_normal_suggestions x = Inl e \<Longrightarrow> exc_class e = ValidationError" for x e
    by (cases x) (auto simp: validate_normal_suggestions_def invalid_def split: if_splits dest: l)
  assume "model_validate j = Inl e"
  then show ?thesis
    by (cases j) (auto simp: model_validate_def invalid_def split: option.splits sum.splits dest: m n)
qed

text \<open>An object whose list of normal suggestions has fourteen items is rejected.\<close>

lemma model_validate_14:
  "map_of kv ''normal_suggestions'' = Some (JArray xs) \<Longrightarrow> length xs = 14 \<Longrightarrow>
     \<exists>e. model_validate (JObject kv) = Inl e"
  by (auto simp: model_validate_def invalid_def validate_normal_suggestions_def
      split: option.splits sum.splits)

lemma model_validate_bundle_json:
  "model_validate (bundle_json n) =
     (if n < 15 then invalid ''List should have at least 15 items''
      else if 15 < n then invalid ''List should have at most 15 items''
      else Inr \<lparr>main_suggestions =
                  \<lparr>movie_style_suggestion = ''a'', mood_suggestion = ''b'',
                   color_focus_suggestion = ''c'', other_main_suggestion = ''d''\<rparr>,
                normal_suggestions = replicate n ''s''\<rparr>)"
  by (simp add: model_validate_def bundle_json_def validate_MainSuggestions_def
      required_str_def validate_normal_suggestions_def validate_str_list_replicate invalid_def)

lemma parse_output_Inr:
  "snd (parse_output env raw) = Inr b \<Longrightarrow>
     \<exists>j. (parser_decode env raw = Inr j \<or> json_loads env raw = Inr j) \<and> model_validate j = Inr b"
  by (auto simp: parse_output_def parser_parse_def split: sum.splits)

lemma gemini_result_from_parse:
  "snd (gemini_user_style_suggestions env img) = Inr b \<Longrightarrow>
     \<exists>raw. snd (parse_output env raw) = Inr b"
  by (auto simp: gemini_user_style_suggestions_def Let_def split: sum.splits prod.splits)
     (metis snd_conv)

text \<open>
  When the image is encoded and the model replies, the result of the call is the result
  of parsing the cleaned reply.
\<close>

lemma gemini_result_is_parse_output:
  "jpeg_base64 env img = Inr b64 \<Longrightarrow>
   gemini_invoke env
     \<lparr>client_kwargs = gemini_kwargs (api_key env), invoke_kwargs = [],
      prompt_text = prompt env, image_url = ''data:image/jpeg;base64,'' @ b64\<rparr> = Inr resp \<Longrightarrow>
   snd (gemini_user_style_suggestions env img) =
     snd (parse_output env (clean_raw (extract_raw resp)))"
  by (simp add: gemini_user_style_suggestions_def pil_to_data_uri_def Let_def
      split: prod.splits)

section \<open>The image pipeline: the parse and its fallback\<close>

text \<open>
  Claim C2. On a cleaned reply the parser is tried first. When it returns a bundle, that
  bundle is the result and nothing else is called. When it fails, whether in decoding
  or in validation, and only then, \<open>json.loads\<close> is called on the same text and its value
  is validated against \<open>CombinedSuggestions\<close>; an exception of either step is the result
  of the call. Each of the two stages runs at most once.
\<close>

theorem fallback_after_primary_failure:
  "(\<forall>b. parser_parse env raw = Inr b \<longrightarrow>
      parse_output env raw = ([CallParserParse raw], Inr b)) \<and>
   (\<forall>e. parser_parse env raw = Inl e \<longrightarrow>
      (\<forall>e'. json_loads env raw = Inl e' \<longrightarrow>
         parse_output env raw =
           ([CallParserParse raw,
             Print (''Pydantic parsing failed: '' @ exc_str e @ ''. Attempting direct JSON load.''),
             CallJsonLoads raw], Inl e')) \<and>
      (\<forall>j. json_loads env raw = Inr j \<longrightarrow>
         parse_output env raw =
           ([CallParserParse raw,
             Print (''Pydantic parsing failed: '' @ exc_str e @ ''. Attempting direct JSON load.''),
             CallJsonLoads raw, CallModelValidate j], model_validate j))) \<and>
   ((\<exists>e. parser_parse env raw = Inl e) \<longleftrightarrow>
      (\<exists>e. parser_decode env raw = Inl e) \<or>
      (\<exists>j e. parser_decode env raw = Inr j \<and> model_validate j = Inl e)) \<and>
   (CallJsonLoads raw \<in> set (fst (parse_output env raw)) \<longleftrightarrow>
      (\<exists>e. parser_parse env raw = Inl e)) \<and>
   hd (fst (parse_output env raw)) = CallParserParse raw \<and>
   count_list (fst (parse_output env raw)) (CallParserParse raw) = 1 \<and>
   count_list (fst (parse_output env raw)) (CallJsonLoads raw) \<le> 1"
proof -
  have a: "\<forall>b. parser_parse env raw = Inr b \<longrightarrow>
      parse_output env raw = ([CallParserParse raw], Inr b)"
    by (simp add: parse_output_def)
  have b: "\<forall>e. parser_parse env raw = Inl e \<longrightarrow>
      (\<forall>e'. json_loads env raw = Inl e' \<longrightarrow>
         parse_output env raw =
           ([CallParserParse raw,
             Print (''Pydantic parsing failed: '' @ exc_str e @ ''. Attempting direct JSON load.''),
             CallJsonLoads raw], Inl e')) \<and>
      (\<forall>j. json_loads env raw = Inr j \<longrightarrow>
         parse_output env raw =
           ([CallParserParse raw,
             Print (''Pydantic parsing failed: '' @ exc_str e @ ''. Attempting direct JSON load.''),
             CallJsonLoads raw, CallModelValidate j], model_validate j))"
    by (simp add: parse_output_def)
  have c: "(\<exists>e. parser_parse env raw = Inl e) \<longleftrightarrow>
      (\<exists>e. parser_decode env raw = Inl e) \<or>
      (\<exists>j e. parser_decode env raw = Inr j \<and> model_validate j = Inl e)"
    by (auto simp: parser_parse_def split: sum.splits)
  have d: "CallJsonLoads raw \<in> set (fst (parse_output env raw)) \<longleftrightarrow>
      (\<exists>e. parser_parse env raw = Inl e)"
    by (auto simp: parse_output_def split: sum.splits)
  have e: "hd (fst (parse_output env raw)) = CallParserParse raw"
    by (simp add: parse_output_def split: sum.splits)
  have f: "count_list (fst (parse_output env raw)) (CallParserParse raw) = 1"
    by (simp add: parse_output_def split: sum.splits)
  have g: "count_list (fst (parse_output env raw)) (CallJsonLoads raw) \<le> 1"
    by (simp add: parse_output_def split: sum.splits)
  from a b c d e f g show ?thesis by blast
qed

theorem fallback_after_primary_failure_witness:
  "parse_output (stub_collaborators [] (Inr (bundle_json 15)) (Inr JNull)) ''x'' =
     ([CallParserParse ''x''],
      Inr \<lparr>main_suggestions =
             \<lparr>movie_style_suggestion = ''a'', mood_suggestion = ''b'',
              color_focus_suggestion = ''c'', other_main_suggestion = ''d''\<rparr>,
           normal_suggestions = replicate 15 ''s''\<rparr>) \<and>
   parse_output (stub_collaborators [] (Inl (Raised OtherException ''bad''))
                   (Inl (Raised JSONDecodeError ''worse''))) ''x'' =
     ([CallParserParse ''x'',
       Print ''Pydantic parsing failed: bad. Attempting direct JSON load.'',
       CallJsonLoads ''x''], Inl (Raised JSONDecodeError ''worse'')) \<and>
   snd (parse_output (stub_collaborators [] (Inr (bundle_json 14)) (Inr (bundle_json 15))) ''x'') =
     model_validate (bundle_json 15) \<and>
   CallJsonLoads ''x'' \<in>
     set (fst (parse_output (stub_collaborators [] (Inr (bundle_json 14)) (Inr (bundle_json 15))) ''x''))"
proof -
  let ?ok = "stub_collaborators [] (Inr (bundle_json 15)) (Inr JNull)"
  let ?bad = "stub_collaborators [] (Inl (Raised OtherException ''bad''))
                (Inl (Raised JSONDecodeError ''worse''))"
  let ?fb = "stub_collaborators [] (Inr (bundle_json 14)) (Inr (bundle_json 15))"
  have p1: "parser_parse ?ok ''x'' =
      Inr \<lparr>main_suggestions =
             \<lparr>movie_style_suggestion = ''a'', mood_suggestion = ''b'',
              color_focus_suggestion = ''c'', other_main_suggestion = ''d''\<rparr>,
           normal_suggestions = replicate 15 ''s''\<rparr>"
    by (simp add: parser_parse_def stub_collaborators_def model_validate_bundle_json)
  have p2: "parser_parse ?bad ''x'' = Inl (Raised OutputParserException ''bad'')"
    by (simp add: parser_parse_def stub_collaborators_def)
  have l2: "json_loads ?bad ''x'' = Inl (Raised JSONDecodeError ''worse'')"
    by (simp add: stub_collaborators_def)
  have p3: "parser_parse ?fb ''x'' =
      Inl (Raised OutputParserException ''List should have at least 15 items'')"
    by (simp add: parser_parse_def stub_collaborators_def model_validate_bundle_json invalid_def)
  have l3: "json_loads ?fb ''x'' = Inr (bundle_json 15)"
    by (simp add: stub_collaborators_def)
  note f1 = fallback_after_primary_failure [of ?ok "''x''"]
  note f2 = fallback_after_primary_failure [of ?bad "''x''"]
  note f3 = fallback_after_primary_failure [of ?fb "''x''"]
  have r1: "parse_output ?ok ''x'' = ([CallParserParse ''x''],
      Inr \<lparr>main_suggestions =
             \<lparr>movie_style_suggestion = ''a'', mood_suggestion = ''b'',
              color_focus_suggestion = ''c'', other_main_suggestion = ''d''\<rparr>,
           normal_suggestions = replicate 15 ''s''\<rparr>)"
    using f1 p1 by blast
  have r2: "parse_output ?bad ''x'' =
     ([CallParserParse ''x'',
       Print ''Pydantic parsing failed: bad. Attempting direct JSON load.'',
       CallJsonLoads ''x''], Inl (Raised JSONDecodeError ''worse''))"
    using f2 p2 l2 by simp
  have r3: "snd (parse_output ?fb ''x'') = model_validate (bundle_json 15)"
    using f3 p3 l3 by simp
  have r4: "CallJsonLoads ''x'' \<in> set (fst (parse_output ?fb ''x''))"
    using f3 p3 by blast
  from r1 r2 r3 r4 show ?thesis by blast
qed

section \<open>The image pipeline: the cardinality of a returned bundle\<close>

text \<open>
  Claim C3. A bundle the pipeline returns comes from a JSON object that carries the
  four main-suggestion fields as strings and a list of exactly fifteen strings, so four
  plus the number of normal suggestions is nineteen. An object the parser decodes with
  fourteen normal suggestions fails the primary validation; when the fallback rejects
  the text as well, by a decoding error or by validation, the call raises that error
  and returns no bundle, and a rejection by validation is a \<open>ValidationError\<close>. When the
  image is encoded and the model replies, the call's result is the result of parsing
  the cleaned reply.
\<close>

theorem bundle_cardinality:
  "(\<forall>b. snd (gemini_user_style_suggestions env img) = Inr b \<longrightarrow>
      length (normal_suggestions b) = 15 \<and> 4 + length (normal_suggestions b) = 19 \<and>
      (\<exists>j. well_shaped j b)) \<and>
   (\<forall>kv xs. parser_decode env raw = Inr (JObject kv) \<and>
        map_of kv ''normal_suggestions'' = Some (JArray xs) \<and> length xs = 14 \<longrightarrow>
      (\<exists>e. parser_parse env raw = Inl e) \<and>
      (\<forall>e'. json_loads env raw = Inl e' \<longrightarrow> snd (parse_output env raw) = Inl e') \<and>
      (\<forall>j e'. json_loads env raw = Inr j \<and> model_validate j = Inl e' \<longrightarrow>
         snd (parse_output env raw) = Inl e' \<and> exc_class e' = ValidationError) \<and>
      (json_loads env raw = Inr (JObject kv) \<longrightarrow>
         (\<exists>e'. snd (parse_output env raw) = Inl e' \<and> exc_class e' = ValidationError))) \<and>
   (\<forall>b64 resp. jpeg_base64 env img = Inr b64 \<and>
        gemini_invoke env
          \<lparr>client_kwargs = gemini_kwargs (api_key env), invoke_kwargs = [],
           prompt_text = prompt env, image_url = ''data:image/jpeg;base64,'' @ b64\<rparr>
          = Inr resp \<longrightarrow>
      snd (gemini_user_style_suggestions env img) =
        snd (parse_output env (clean_raw (extract_raw resp))))"
proof -
  have a: "snd (gemini_user_style_suggestions env img) = Inr b \<longrightarrow>
      length (normal_suggestions b) = 15 \<and> 4 + length (normal_suggestions b) = 19 \<and>
      (\<exists>j. well_shaped j b)" for b
  proof
    assume "snd (gemini_user_style_suggestions env img) = Inr b"
    from gemini_result_from_parse [OF this]
    obtain raw' where "snd (parse_output env raw') = Inr b" ..
    from parse_output_Inr [OF this]
    obtain j where "model_validate j = Inr b" by auto
    then have "well_shaped j b" "length (normal_suggestions b) = 15"
      using model_validate_Inr by blast+
    then show "length (normal_suggestions b) = 15 \<and> 4 + length (normal_suggestions b) = 19 \<and>
      (\<exists>j. well_shaped j b)" by auto
  qed
  have b: "parser_decode env raw = Inr (JObject kv) \<and>
        map_of kv ''normal_suggestions'' = Some (JArray xs) \<and> length xs = 14 \<longrightarrow>
      (\<exists>e. parser_parse env raw = Inl e) \<and>
      (\<forall>e'. json_loads env raw = Inl e' \<longrightarrow> snd (parse_output env raw) = Inl e') \<and>
      (\<forall>j e'. json_loads env raw = Inr j \<and> model_validate j = Inl e' \<longrightarrow>
         snd (parse_output env raw) = Inl e' \<and> exc_class e' = ValidationError) \<and>
      (json_loads env raw = Inr (JObject kv) \<longrightarrow>
         (\<exists>e'. snd (parse_output env raw) = Inl e' \<and> exc_class e' = ValidationError))" for kv xs
  proof
    assume h: "parser_decode env raw = Inr (JObject kv) \<and>
        map_of kv ''normal_suggestions'' = Some (JArray xs) \<and> length xs = 14"
    then obtain e0 where e0: "model_validate (JObject kv) = Inl e0"
      using model_validate_14 by blast
    with h have p: "parser_parse env raw = Inl (Raised OutputParserException (exc_str e0))"
      by (simp add: parser_parse_def)
    have c1: "\<exists>e. parser_parse env raw = Inl e" using p by blast
    have c2: "\<forall>e'. json_loads env raw = Inl e' \<longrightarrow> snd (parse_output env raw) = Inl e'"
      using p by (simp add: parse_output_def)
    have c3: "\<forall>j e'. json_loads env raw = Inr j \<and> model_validate j = Inl e' \<longrightarrow>
         snd (parse_output env raw) = Inl e' \<and> exc_class e' = ValidationError"
      using p by (auto simp: parse_output_def dest: model_validate_error_class)
    have c4: "json_loads env raw = Inr (JObject kv) \<longrightarrow>
         (\<exists>e'. snd (parse_output env raw) = Inl e' \<and> exc_class e' = ValidationError)"
      using c3 e0 by blast
    show "(\<exists>e. parser_parse env raw = Inl e) \<and>
      (\<forall>e'. json_loads env raw = Inl e' \<longrightarrow> snd (parse_output env raw) = Inl e') \<and>
      (\<forall>j e'. json_loads env raw = Inr j \<and> model_validate j = Inl e' \<longrightarrow>
         snd (parse_output env raw) = Inl e' \<and> exc_class e' = ValidationError) \<and>
      (json_loads env raw = Inr (JObject kv) \<longrightarrow>
         (\<exists>e'. snd (parse_output env raw) = Inl e' \<and> exc_class e' = ValidationError))"
      by (intro conjI) (rule c1, rule c2, rule c3, rule c4)
  qed
  have c: "jpeg_base64 env img = Inr b64 \<and>
        gemini_invoke env
          \<lparr>client_kwargs = gemini_kwargs (api_key env), invoke_kwargs = [],
           prompt_text = prompt env, image_url = ''data:image/jpeg;base64,'' @ b64\<rparr>
          = Inr resp \<longrightarrow>
      snd (gemini_user_style_suggestions env img) =
        snd (parse_output env (clean_raw (extract_raw resp)))" for b64 resp
    by (intro impI, elim conjE) (rule gemini_result_is_parse_output)
  show ?thesis
    by (intro conjI allI) (rule a, rule b, rule c)
qed

theorem bundle_cardinality_witness:
  "snd (gemini_user_style_suggestions
          (stub_collaborators ''{}'' (Inr (bundle_json 15)) (Inr JNull)) ()) =
     Inr \<lparr>main_suggestions =
            \<lparr>movie_style_suggestion = ''a'', mood_suggestion = ''b'',
             color_focus_suggestion = ''c'', other_main_suggestion = ''d''\<rparr>,
          normal_suggestions = replicate 15 ''s''\<rparr> \<and>
   4 + length (replicate 15 ''s'') = (19::nat) \<and>
   snd (gemini_user_style_suggestions
          (stub_collaborators ''{}'' (Inr (bundle_json 14)) (Inr (bundle_json 14))) ()) =
     Inl (Raised ValidationError ''List should have at least 15 items'')"
proof -
  let ?ok = "stub_collaborators ''{}'' (Inr (bundle_json 15)) (Inr JNull)"
  let ?short = "stub_collaborators ''{}'' (Inr (bundle_json 14)) (Inr (bundle_json 14))"
  let ?b = "\<lparr>main_suggestions =
            \<lparr>movie_style_suggestion = ''a'', mood_suggestion = ''b'',
             color_focus_suggestion = ''c'', other_main_suggestion = ''d''\<rparr>,
          normal_suggestions = replicate 15 ''s''\<rparr>"
  let ?kv = "[(''main_suggestions'',
         JObject [(''movie_style_suggestion'', JString ''a''), (''mood_suggestion'', JString ''b''),
                  (''color_focus_suggestion'', JString ''c''),
                  (''other_main_suggestion'', JString ''d'')]),
        (''normal_suggestions'', JArray (replicate 14 (JString ''s'')))]"
  have cl: "clean_raw (extract_raw \<lparr>content = StrContent ''{}'', str_of_resp = []\<rparr>) = ''{}''"
    by (simp add: clean_raw_def extract_raw_def startswith_def strip_eval isspace_def)
  have ok: "snd (gemini_user_style_suggestions ?ok ()) = Inr ?b"
    by (simp add: gemini_user_style_suggestions_def pil_to_data_uri_def Let_def cl
        parse_output_def parser_parse_def model_validate_bundle_json stub_collaborators_def
        split: prod.splits)
  note first = bundle_cardinality [of ?ok "()" "''{}''", THEN conjunct1, rule_format, OF ok]
  then have n: "4 + length (normal_suggestions ?b) = 19" by (elim conjE)
  have d: "parser_decode ?short ''{}'' = Inr (JObject ?kv) \<and>
      map_of ?kv ''normal_suggestions'' = Some (JArray (replicate 14 (JString ''s''))) \<and>
      length (replicate 14 (JString ''s'')) = 14"
    by (simp add: stub_collaborators_def bundle_json_def)
  have l: "json_loads ?short ''{}'' = Inr (JObject ?kv)"
    by (simp add: stub_collaborators_def bundle_json_def)
  note second = bundle_cardinality [of ?short "()" "''{}''", THEN conjunct2, THEN conjunct1,
      rule_format, OF d]
  then have "json_loads ?short ''{}'' = Inr (JObject ?kv) \<longrightarrow>
      (\<exists>e'. snd (parse_output ?short ''{}'') = Inl e' \<and> exc_class e' = ValidationError)"
    by (elim conjE)
  with l obtain e' where e': "snd (parse_output ?short ''{}'') = Inl e'"
      "exc_class e' = ValidationError"
    by (elim impE exE conjE)
  have j: "jpeg_base64 ?short () = Inr ''AAAA'' \<and>
    gemini_invoke ?short
       \<lparr>client_kwargs = gemini_kwargs (api_key ?short), invoke_kwargs = [],
        prompt_text = prompt ?short, image_url = ''data:image/jpeg;base64,'' @ ''AAAA''\<rparr>
     = Inr \<lparr>content = StrContent ''{}'', str_of_resp = []\<rparr>"
    by (simp add: stub_collaborators_def)
  note r = bundle_cardinality [of ?short "()" "''{}''", THEN conjunct2, THEN conjunct2,
      rule_format, OF j]
  have v: "snd (parse_output ?short ''{}'') =
      Inl (Raised ValidationError ''List should have at least 15 items'')"
    by (simp add: parse_output_def parser_parse_def model_validate_bundle_json
        stub_collaborators_def invalid_def)
  have n': "4 + length (replicate 15 ''s'') = (19::nat)" using n by simp
  have r': "snd (gemini_user_style_suggestions ?short ()) =
      Inl (Raised ValidationError ''List should have at least 15 items'')"
    using r v cl by simp
  show ?thesis
    by (intro conjI) (rule ok, rule n', rule r')
qed

section \<open>The image pipeline: the entry-point guard\<close>

text \<open>
  The model can run an example block: a guard that reads \<open>__name__\<close> and compares it with
  \<open>"__main__"\<close> runs the block when the file is the script.
\<close>

lemma well_formed_guard_runs:
  "exec_stmt builtins raises (initial_state ''__main__'') (IfEqExample ''__name__'' ''__main__'') =
     Inr \<lparr>globals = [(''__name__'', PStr ''__main__'')], example_ran = True\<rparr>"
  by (simp add: lookup_name_def initial_state_def)



















end
